theory Spec2Isabelle
  imports Complex_Main "HOL-Library.Multiset"
begin

unbundle bit_operations_syntax

section \<open>Python values, errors and loops\<close>

text \<open>
  The two tools of the repository, \<^verbatim>\<open>tools/generate_bg_texture.py\<close> and
  \<^verbatim>\<open>tools/generate_normals.py\<close>, are embedded function by function.
  Python's \<^verbatim>\<open>float\<close> is read as \<^typ>\<open>real\<close>: every theorem below is a statement
  about the exact arithmetic the source writes down, not about IEEE rounding.
  Python's \<^verbatim>\<open>int\<close> is \<^typ>\<open>int\<close>. Every exception the statements of the source can
  raise is a value of \<open>error\<close>, and a computation that can raise returns
  \<open>error + 'a\<close> with \<open>Inl\<close> the exception. \<open>CodecFailure\<close> is any exception of the file
  system or of the image codec when the result is written.
\<close>

datatype error = IndexError | ZeroDivisionError | ValueError | CodecFailure

text \<open>Sequencing of two statements, the first of which may raise.\<close>

definition ebind :: "error + 'a \<Rightarrow> ('a \<Rightarrow> error + 'b) \<Rightarrow> error + 'b" where
  "ebind m f = (case m of Inl e \<Rightarrow> Inl e | Inr v \<Rightarrow> f v)"

text \<open>The position that the index \<open>i\<close> denotes in a Python list of \<open>n\<close> elements: an
  index from \<open>-n\<close> to \<open>-1\<close> counts from the end, one outside \<open>-n..n-1\<close> denotes
  none.\<close>

definition py_index :: "nat \<Rightarrow> int \<Rightarrow> nat option" where
  "py_index n i =
     (if 0 \<le> i \<and> i < int n then Some (nat i)
      else if - int n \<le> i \<and> i < 0 then Some (nat (int n + i))
      else None)"

text \<open>\<^verbatim>\<open>xs[i]\<close> and \<^verbatim>\<open>xs[i] = v\<close> on a Python list.\<close>

definition getitem :: "'a list \<Rightarrow> int \<Rightarrow> error + 'a" where
  "getitem xs i =
     (case py_index (length xs) i of None \<Rightarrow> Inl IndexError | Some k \<Rightarrow> Inr (xs ! k))"

definition setitem :: "'a list \<Rightarrow> int \<Rightarrow> 'a \<Rightarrow> error + 'a list" where
  "setitem xs i v =
     (case py_index (length xs) i of None \<Rightarrow> Inl IndexError | Some k \<Rightarrow> Inr (xs[k := v]))"

text \<open>\<^verbatim>\<open>a / b\<close> on numbers (true division).\<close>

definition truediv :: "real \<Rightarrow> real \<Rightarrow> error + real" where
  "truediv a b = (if b = 0 then Inl ZeroDivisionError else Inr (a / b))"

text \<open>\<^verbatim>\<open>math.sqrt\<close>: a negative argument is a domain error.\<close>

definition math_sqrt :: "real \<Rightarrow> error + real" where
  "math_sqrt v = (if v < 0 then Inl ValueError else Inr (sqrt v))"

text \<open>\<^verbatim>\<open>int(v)\<close> on a float truncates towards zero.\<close>

definition py_int :: "real \<Rightarrow> int" where
  "py_int v = (if 0 \<le> v then \<lfloor>v\<rfloor> else \<lceil>v\<rceil>)"

text \<open>\<^verbatim>\<open>range(n)\<close>: empty when \<open>n \<le> 0\<close>.\<close>

definition py_range :: "int \<Rightarrow> nat list" where
  "py_range n = [0..<nat n]"

text \<open>\<^verbatim>\<open>for i in r: s = body(i, s)\<close>, leaving the loop at the first exception.\<close>

primrec for_loop :: "nat list \<Rightarrow> (nat \<Rightarrow> 's \<Rightarrow> error + 's) \<Rightarrow> 's \<Rightarrow> error + 's" where
  "for_loop [] body s = Inr s"
| "for_loop (i # r) body s = (case body i s of Inl e \<Rightarrow> Inl e | Inr s' \<Rightarrow> for_loop r body s')"

section \<open>Images\<close>

text \<open>
  An RGBA pixel is the 4-tuple of integers that pixel access of the imaging library
  returns and accepts. An image has its size and a pixel store addressed by \<open>(x, y)\<close>;
  access outside the size raises. The imaging library itself is not part of the
  repository: \<open>Image_new\<close> states what \<^verbatim>\<open>Image.new('RGBA', (w, h))\<close> does, a fresh
  image of transparent black, and its refusal of a negative dimension.
\<close>

type_synonym rgba = "int \<times> int \<times> int \<times> int"

record image =
  width :: nat
  height :: nat
  px :: "nat \<times> nat \<Rightarrow> rgba"

definition Image_new :: "int \<times> int \<Rightarrow> error + image" where
  "Image_new sz =
     (case sz of (w, h) \<Rightarrow>
        if w < 0 \<or> h < 0 then Inl ValueError
        else Inr \<lparr>width = nat w, height = nat h, px = (\<lambda>_. (0, 0, 0, 0))\<rparr>)"

definition getpixel :: "image \<Rightarrow> nat \<Rightarrow> nat \<Rightarrow> error + rgba" where
  "getpixel img x y =
     (if x < width img \<and> y < height img then Inr (px img (x, y)) else Inl IndexError)"

definition putpixel :: "image \<Rightarrow> nat \<Rightarrow> nat \<Rightarrow> rgba \<Rightarrow> error + image" where
  "putpixel img x y v =
     (if x < width img \<and> y < height img then Inr (img\<lparr>px := (px img)((x, y) := v)\<rparr>)
      else Inl IndexError)"

section \<open>generate_bg_texture.py\<close>

definition lerp :: "real \<Rightarrow> real \<Rightarrow> real \<Rightarrow> real" where
  "lerp a b t = a + (b - a) * t"

definition smoothstep :: "real \<Rightarrow> real" where
  "smoothstep t = t * t * (3 - 2 * t)"

text \<open>
  \<^verbatim>\<open>random.Random\<close> is the standard library's generator, not code of the repository.
  It is a parameter: a generator state \<open>'g\<close>, the state made from a seed, a shuffle
  and a draw, each returning the next state.
\<close>

record 'g prng =
  rng_seed :: "int \<Rightarrow> 'g"
  rng_shuffle :: "'g \<Rightarrow> int list \<Rightarrow> int list \<times> 'g"
  rng_random :: "'g \<Rightarrow> real \<times> 'g"

text \<open>\<^verbatim>\<open>[rng.random() for _ in range(n)]\<close>\<close>

primrec randoms :: "'g prng \<Rightarrow> nat \<Rightarrow> 'g \<Rightarrow> real list \<times> 'g" where
  "randoms P 0 g = ([], g)"
| "randoms P (Suc n) g =
     (case rng_random P g of (v, g') \<Rightarrow>
        (case randoms P n g' of (vs, g'') \<Rightarrow> (v # vs, g'')))"

text \<open>The fields of a \<^verbatim>\<open>ValueNoise2D\<close> object; \<open>vals\<close> is the attribute
  \<^verbatim>\<open>values\<close>.\<close>

record noise =
  perm :: "int list"
  vals :: "real list"

definition ValueNoise2D :: "'g prng \<Rightarrow> int \<Rightarrow> noise" where
  "ValueNoise2D P seed =
     (let rng = rng_seed P seed;
          (p, rng) = rng_shuffle P rng (map int [0..<256]);
          p = p @ p;
          (vs, rng) = randoms P 256 rng
      in \<lparr>perm = p, vals = vs\<rparr>)"

text \<open>\<^verbatim>\<open>_hash\<close>: three list reads, each of which may raise.\<close>

definition hash :: "noise \<Rightarrow> int \<Rightarrow> int \<Rightarrow> error + real" where
  "hash N ix iy =
     ebind (getitem (perm N) (ix AND 255)) (\<lambda>a.
     ebind (getitem (perm N) (a + (iy AND 255))) (\<lambda>b.
     getitem (vals N) (b AND 255)))"

definition sample :: "noise \<Rightarrow> real \<Rightarrow> real \<Rightarrow> error + real" where
  "sample N x y =
     (let ix = \<lfloor>x\<rfloor>;
          iy = \<lfloor>y\<rfloor>;
          fx = x - real_of_int ix;
          fy = y - real_of_int iy;
          fx = smoothstep fx;
          fy = smoothstep fy
      in ebind (hash N ix iy) (\<lambda>v00.
         ebind (hash N (ix + 1) iy) (\<lambda>v10.
         ebind (hash N ix (iy + 1)) (\<lambda>v01.
         ebind (hash N (ix + 1) (iy + 1)) (\<lambda>v11.
         Inr (lerp (lerp v00 v10 fx) (lerp v01 v11 fx) fy))))))"

text \<open>The loop of \<^verbatim>\<open>fbm\<close>, with its three variables, run \<open>n\<close> more times.\<close>

primrec fbm_loop :: "noise \<Rightarrow> real \<Rightarrow> real \<Rightarrow> nat \<Rightarrow> real \<Rightarrow> real \<Rightarrow> real \<Rightarrow> error + real" where
  "fbm_loop N x y 0 value amplitude frequency = Inr value"
| "fbm_loop N x y (Suc n) value amplitude frequency =
     ebind (sample N (x * frequency) (y * frequency)) (\<lambda>s.
     fbm_loop N x y n (value + amplitude * s) (amplitude * 0.5) (frequency * 2))"

definition fbm :: "noise \<Rightarrow> real \<Rightarrow> real \<Rightarrow> int \<Rightarrow> error + real" where
  "fbm N x y octaves = fbm_loop N x y (nat octaves) 0 0.5 1"

text \<open>The body of the two pixel loops of \<^verbatim>\<open>generate_texture\<close>, up to the tuple
  that is stored.\<close>

definition texture_pixel :: "noise \<Rightarrow> noise \<Rightarrow> noise \<Rightarrow> int \<Rightarrow> nat \<Rightarrow> nat \<Rightarrow> error + rgba" where
  "texture_pixel noise1 noise2 noise3 sz x y =
     ebind (truediv (real x) (real_of_int sz)) (\<lambda>qx.
     ebind (truediv (real y) (real_of_int sz)) (\<lambda>qy.
     let nx = qx * 8; ny = qy * 8 in
     ebind (fbm noise1 nx ny 5) (\<lambda>f1.
     ebind (fbm noise2 (nx * 2) (ny * 2) 4) (\<lambda>f2.
     ebind (fbm noise3 (nx * 6) (ny * 6) 3) (\<lambda>f3.
     let v = f1 * 0.5 + f2 * 0.3 + f3 * 0.2;
         v = max 0 (min 1 v);
         r = py_int (max 0 (min 255 (35 + 20 * v)));
         g = py_int (max 0 (min 255 (30 + 15 * v)));
         b = py_int (max 0 (min 255 (28 + 12 * v)))
     in Inr (r, g, b, 255))))))"

definition generate_texture :: "'g prng \<Rightarrow> int \<Rightarrow> int \<Rightarrow> error + image" where
  "generate_texture P sz seed =
     (let noise1 = ValueNoise2D P seed;
          noise2 = ValueNoise2D P (seed + 137);
          noise3 = ValueNoise2D P (seed + 271)
      in ebind (Image_new (sz, sz)) (\<lambda>img.
         for_loop (py_range sz) (\<lambda>y img.
           for_loop (py_range sz) (\<lambda>x img.
             ebind (texture_pixel noise1 noise2 noise3 sz x y) (putpixel img x y)) img) img))"

text \<open>
  \<^verbatim>\<open>main\<close> after the arguments are parsed: the size and the seed go to
  \<^verbatim>\<open>generate_texture\<close> as they are, and the image it returns is written. Creating the
  directory and \<^verbatim>\<open>img.save\<close> belong to the file system and the codec; they are the
  parameter \<open>save\<close>. The two \<^verbatim>\<open>print\<close> calls are left out.
\<close>

definition main :: "'g prng \<Rightarrow> (image \<Rightarrow> error + unit) \<Rightarrow> int \<Rightarrow> int \<Rightarrow> error + unit" where
  "main P save sz seed = ebind (generate_texture P sz seed) (\<lambda>img. save img)"

section \<open>generate_normals.py\<close>

text \<open>The height of one pixel (the two branches of the first pixel loop of
  \<^verbatim>\<open>sobel_normal_map\<close>).\<close>

definition pixel_height :: "string \<Rightarrow> rgba \<Rightarrow> real" where
  "pixel_height source p =
     (case p of (r, g, b, a) \<Rightarrow>
        if source = ''alpha'' then real_of_int a / 255
        else (0.299 * real_of_int r + 0.587 * real_of_int g + 0.114 * real_of_int b) / 255)"

text \<open>
  The first pixel loop: \<^verbatim>\<open>height_map\<close> starts as \<open>height\<close> separate rows of zeros and
  \<^verbatim>\<open>height_map[y][x] = ...\<close> reads row \<open>y\<close> and stores into it. The rows are distinct
  list objects, so the store changes row \<open>y\<close> of the table and nothing else.
\<close>

definition height_map :: "image \<Rightarrow> string \<Rightarrow> error + real list list" where
  "height_map img source =
     for_loop (py_range (int (height img))) (\<lambda>y hm.
       for_loop (py_range (int (width img))) (\<lambda>x hm.
         ebind (getpixel img x y) (\<lambda>p.
         ebind (getitem hm (int y)) (\<lambda>row.
         ebind (setitem row (int x) (pixel_height source p)) (\<lambda>row'.
         Inr (hm[y := row']))))) hm)
       (map (\<lambda>_. replicate (width img) 0) (py_range (int (height img))))"

text \<open>The closure \<^verbatim>\<open>h(dx, dy)\<close> of pixel \<open>(x, y)\<close>, with the variables it captures
  as arguments.\<close>

definition h_read :: "real list list \<Rightarrow> nat \<Rightarrow> nat \<Rightarrow> nat \<Rightarrow> nat \<Rightarrow> int \<Rightarrow> int \<Rightarrow> error + real" where
  "h_read hm w ht x y dx dy =
     (let sx = max 0 (min (int w - 1) (int x + dx));
          sy = max 0 (min (int ht - 1) (int y + dy))
      in ebind (getitem hm sy) (\<lambda>row. getitem row sx))"

text \<open>\<^verbatim>\<open>gx\<close> and \<open>gy\<close> as first assigned: six reads each, in the order of the source.
  The six terms are added exactly. The code adds doubles from left to right and rounds
  after each addition: on equal heights \<open>c\<close> its \<open>gx\<close> still cancels term by term, while
  its \<open>gy\<close> passes through \<open>-3c\<close> and can keep a rounding residue unless \<open>c = 0\<close>. The
  property of flat images below therefore uses \<open>gy\<close> only where the heights are 0 or the
  strength is 0.\<close>

definition sobel_gx :: "real list list \<Rightarrow> nat \<Rightarrow> nat \<Rightarrow> nat \<Rightarrow> nat \<Rightarrow> error + real" where
  "sobel_gx hm w ht x y =
     ebind (h_read hm w ht x y (-1) (-1)) (\<lambda>a.
     ebind (h_read hm w ht x y 1 (-1)) (\<lambda>b.
     ebind (h_read hm w ht x y (-1) 0) (\<lambda>c.
     ebind (h_read hm w ht x y 1 0) (\<lambda>d.
     ebind (h_read hm w ht x y (-1) 1) (\<lambda>e.
     ebind (h_read hm w ht x y 1 1) (\<lambda>f.
     Inr (-1 * a + 1 * b + -2 * c + 2 * d + -1 * e + 1 * f)))))))"

definition sobel_gy :: "real list list \<Rightarrow> nat \<Rightarrow> nat \<Rightarrow> nat \<Rightarrow> nat \<Rightarrow> error + real" where
  "sobel_gy hm w ht x y =
     ebind (h_read hm w ht x y (-1) (-1)) (\<lambda>a.
     ebind (h_read hm w ht x y 0 (-1)) (\<lambda>b.
     ebind (h_read hm w ht x y 1 (-1)) (\<lambda>c.
     ebind (h_read hm w ht x y (-1) 1) (\<lambda>d.
     ebind (h_read hm w ht x y 0 1) (\<lambda>e.
     ebind (h_read hm w ht x y 1 1) (\<lambda>f.
     Inr (-1 * a + -2 * b + -1 * c + 1 * d + 2 * e + 1 * f)))))))"

text \<open>The gradient after \<^verbatim>\<open>gx *= strength\<close> and \<^verbatim>\<open>gy *= strength\<close>.\<close>

definition gradient :: "real list list \<Rightarrow> nat \<Rightarrow> nat \<Rightarrow> real \<Rightarrow> nat \<Rightarrow> nat \<Rightarrow> error + real \<times> real" where
  "gradient hm w ht strength x y =
     ebind (sobel_gx hm w ht x y) (\<lambda>gx.
     ebind (sobel_gy hm w ht x y) (\<lambda>gy.
     Inr (gx * strength, gy * strength)))"

text \<open>The normal \<open>(-gx, -gy, 1.0)\<close> and its three divisions by \<^verbatim>\<open>length\<close>.\<close>

definition normal_length :: "real \<Rightarrow> real \<Rightarrow> error + real" where
  "normal_length gx gy =
     (let nx = - gx; ny = - gy; nz = 1 in math_sqrt (nx * nx + ny * ny + nz * nz))"

definition normal_vector :: "real \<Rightarrow> real \<Rightarrow> error + real \<times> real \<times> real" where
  "normal_vector gx gy =
     (let nx = - gx; ny = - gy; nz = 1 in
      ebind (normal_length gx gy) (\<lambda>len.
      ebind (truediv nx len) (\<lambda>nx.
      ebind (truediv ny len) (\<lambda>ny.
      ebind (truediv nz len) (\<lambda>nz.
      Inr (nx, ny, nz))))))"

text \<open>The encoding of one component, and of the normal with the alpha of the source
  pixel.\<close>

definition encode_channel :: "real \<Rightarrow> int" where
  "encode_channel n = py_int (max 0 (min 255 ((n * 0.5 + 0.5) * 255)))"

definition encode :: "real \<times> real \<times> real \<Rightarrow> int \<Rightarrow> rgba" where
  "encode n a =
     (case n of (nx, ny, nz) \<Rightarrow>
        (encode_channel nx, encode_channel ny, encode_channel nz, a))"

text \<open>The body of the second pixel loop, up to the tuple that is stored.\<close>

definition normal_pixel :: "image \<Rightarrow> real list list \<Rightarrow> real \<Rightarrow> nat \<Rightarrow> nat \<Rightarrow> error + rgba" where
  "normal_pixel img hm strength x y =
     ebind (gradient hm (width img) (height img) strength x y) (\<lambda>(gx, gy).
     ebind (normal_vector gx gy) (\<lambda>n.
     ebind (getpixel img x y) (\<lambda>(_, _, _, a).
     Inr (encode n a))))"

definition sobel_normal_map :: "image \<Rightarrow> real \<Rightarrow> string \<Rightarrow> error + image" where
  "sobel_normal_map img strength source =
     ebind (height_map img source) (\<lambda>hm.
     ebind (Image_new (int (width img), int (height img))) (\<lambda>normal_map.
     for_loop (py_range (int (height img))) (\<lambda>y out.
       for_loop (py_range (int (width img))) (\<lambda>x out.
         ebind (normal_pixel img hm strength x y) (putpixel out x y)) out) normal_map))"

section \<open>Notions used to state the properties\<close>

subsection \<open>The generator and the lattice\<close>

text \<open>
  What the library promises of the generator: \<^verbatim>\<open>shuffle\<close> permutes its argument and
  \<^verbatim>\<open>random()\<close> returns a number in \<open>[0, 1)\<close>.
\<close>

definition prng_ok :: "'g prng \<Rightarrow> bool" where
  "prng_ok P \<longleftrightarrow>
     (\<forall>g xs. mset (fst (rng_shuffle P g xs)) = mset xs) \<and>
     (\<forall>g. 0 \<le> fst (rng_random P g) \<and> fst (rng_random P g) < 1)"

text \<open>What \<^verbatim>\<open>_hash\<close> and \<^verbatim>\<open>sample\<close> need of the two tables: 512 indices below 256
  and 256 values in \<open>[0, 1)\<close>.\<close>

definition lattice_ok :: "noise \<Rightarrow> bool" where
  "lattice_ok N \<longleftrightarrow>
     length (perm N) = 512 \<and> (\<forall>v \<in> set (perm N). 0 \<le> v \<and> v < 256) \<and>
     length (vals N) = 256 \<and> (\<forall>v \<in> set (vals N). 0 \<le> v \<and> v < 1)"

text \<open>
  A generator to run the definitions on. It counts its calls: it reverses where the
  library shuffles, and its \<open>k\<close>-th state draws \<open>1 / (2 + k)\<close>. And a way of writing the
  result that fails on an image without pixels and succeeds on any other.
\<close>

definition counter_prng :: "nat prng" where
  "counter_prng =
     \<lparr>rng_seed = (\<lambda>s. nat \<bar>s\<bar>),
      rng_shuffle = (\<lambda>g xs. (rev xs, Suc g)),
      rng_random = (\<lambda>g. (1 / (2 + real g), Suc g))\<rparr>"

definition save_nonempty :: "image \<Rightarrow> error + unit" where
  "save_nonempty img = (if width img = 0 \<or> height img = 0 then Inl CodecFailure else Inr ())"

subsection \<open>The values the noise functions return\<close>

text \<open>The table entry that \<^verbatim>\<open>_hash(ix, iy)\<close> selects.\<close>

definition hash_value :: "noise \<Rightarrow> int \<Rightarrow> int \<Rightarrow> real" where
  "hash_value N ix iy =
     vals N ! nat (perm N ! nat (perm N ! nat (ix AND 255) + (iy AND 255)) AND 255)"

text \<open>The bilinear blend of the four corners of the cell of \<open>(x, y)\<close>.\<close>

definition sample_value :: "noise \<Rightarrow> real \<Rightarrow> real \<Rightarrow> real" where
  "sample_value N x y =
     lerp (lerp (hash_value N \<lfloor>x\<rfloor> \<lfloor>y\<rfloor>) (hash_value N (\<lfloor>x\<rfloor> + 1) \<lfloor>y\<rfloor>)
             (smoothstep (x - real_of_int \<lfloor>x\<rfloor>)))
          (lerp (hash_value N \<lfloor>x\<rfloor> (\<lfloor>y\<rfloor> + 1)) (hash_value N (\<lfloor>x\<rfloor> + 1) (\<lfloor>y\<rfloor> + 1))
             (smoothstep (x - real_of_int \<lfloor>x\<rfloor>)))
          (smoothstep (y - real_of_int \<lfloor>y\<rfloor>))"

text \<open>The amplitude and the frequency of octave \<open>i\<close>, as the specification gives
  them: \<open>amplitude\<^sub>0 = 0.5\<close>, halved from one octave to the next; \<open>frequency\<^sub>0 = 1\<close>,
  doubled from one octave to the next.\<close>

primrec amplitude :: "nat \<Rightarrow> real" where
  "amplitude 0 = 0.5"
| "amplitude (Suc i) = amplitude i / 2"

primrec frequency :: "nat \<Rightarrow> real" where
  "frequency 0 = 1"
| "frequency (Suc i) = frequency i * 2"

definition fbm_value :: "noise \<Rightarrow> real \<Rightarrow> real \<Rightarrow> int \<Rightarrow> real" where
  "fbm_value N x y k =
     (\<Sum>i<nat k. amplitude i * sample_value N (x * frequency i) (y * frequency i))"

text \<open>The combined noise \<open>v\<close> of pixel \<open>(x, y)\<close> before it is clamped.\<close>

definition texture_value :: "noise \<Rightarrow> noise \<Rightarrow> noise \<Rightarrow> int \<Rightarrow> nat \<Rightarrow> nat \<Rightarrow> real" where
  "texture_value noise1 noise2 noise3 sz x y =
     (let nx = real x / real_of_int sz * 8; ny = real y / real_of_int sz * 8
      in fbm_value noise1 nx ny 5 * 0.5 + fbm_value noise2 (nx * 2) (ny * 2) 4 * 0.3 +
         fbm_value noise3 (nx * 6) (ny * 6) 3 * 0.2)"

subsection \<open>The height field and the Sobel kernels\<close>

text \<open>The height of pixel \<open>(x, y)\<close> of an image: the entry \<^verbatim>\<open>height_map[y][x]\<close> that the
  first pixel loop computes.\<close>

definition height_field :: "image \<Rightarrow> string \<Rightarrow> nat \<Rightarrow> nat \<Rightarrow> real" where
  "height_field img source x y = pixel_height source (px img (x, y))"

text \<open>
  The specification's reading of the gradient step. A coordinate \<open>c\<close> outside \<open>0..n-1\<close>
  is replaced by the nearest valid one, the edge \<open>0\<close> or \<open>n - 1\<close>; a kernel is a \<open>3 \<times> 3\<close>
  table of weights, row \<open>j\<close> and column \<open>i\<close> weighing the neighbour at offset
  \<open>(i - 1, j - 1)\<close>; applying it sums the weighted heights of the nine neighbours.
\<close>

definition nearest_valid :: "nat \<Rightarrow> int \<Rightarrow> nat" where
  "nearest_valid n c = (if c < 0 then 0 else if int n \<le> c then n - 1 else nat c)"

definition Kx :: "real list list" where
  "Kx = [[-1, 0, 1], [-2, 0, 2], [-1, 0, 1]]"

definition Ky :: "real list list" where
  "Ky = [[-1, -2, -1], [0, 0, 0], [1, 2, 1]]"

definition apply_kernel :: "real list list \<Rightarrow> (nat \<Rightarrow> nat \<Rightarrow> real) \<Rightarrow> nat \<Rightarrow> nat \<Rightarrow> nat \<Rightarrow> nat \<Rightarrow> real" where
  "apply_kernel K H w ht x y =
     (\<Sum>j<3. \<Sum>i<3. K ! j ! i *
        H (nearest_valid w (int x + int i - 1)) (nearest_valid ht (int y + int j - 1)))"

text \<open>The scaled gradient of a pixel, the normalised vector \<open>(-gx, -gy, 1)\<close>, the alpha
  channel of a pixel and the pixel that the second pixel loop stores.\<close>

definition gradient_value :: "image \<Rightarrow> string \<Rightarrow> real \<Rightarrow> nat \<Rightarrow> nat \<Rightarrow> real \<times> real" where
  "gradient_value img source strength x y =
     (apply_kernel Kx (height_field img source) (width img) (height img) x y * strength,
      apply_kernel Ky (height_field img source) (width img) (height img) x y * strength)"

definition unit_normal :: "real \<times> real \<Rightarrow> real \<times> real \<times> real" where
  "unit_normal g =
     (- fst g / sqrt (fst g * fst g + snd g * snd g + 1),
      - snd g / sqrt (fst g * fst g + snd g * snd g + 1),
      1 / sqrt (fst g * fst g + snd g * snd g + 1))"

definition alpha :: "rgba \<Rightarrow> int" where
  "alpha p = snd (snd (snd p))"

definition normal_map_pixel :: "image \<Rightarrow> string \<Rightarrow> real \<Rightarrow> nat \<Rightarrow> nat \<Rightarrow> rgba" where
  "normal_map_pixel img source strength x y =
     encode (unit_normal (gradient_value img source strength x y)) (alpha (px img (x, y)))"

text \<open>The encoding as the specification words it, with rounding to the nearest
  integer.\<close>

definition encode_rounded :: "real \<times> real \<times> real \<Rightarrow> int \<Rightarrow> rgba" where
  "encode_rounded n a =
     (case n of (nx, ny, nz) \<Rightarrow>
        (max 0 (min 255 (round ((nx * 0.5 + 0.5) * 255))),
         max 0 (min 255 (round ((ny * 0.5 + 0.5) * 255))),
         max 0 (min 255 (round ((nz * 0.5 + 0.5) * 255))), a))"




definition ramp_4x4 :: image where
  "ramp_4x4 = \<lparr>width = 4, height = 4, px = (\<lambda>p. (0, 0, 0, int (fst p) + 4 * int (snd p)))\<rparr>"

section \<open>Lemmas\<close>

lemma ebind_Inr: "ebind (Inr v) f = f v"
  by (simp add: ebind_def)

lemma ebind_Inl: "ebind (Inl e) f = Inl e"
  by (simp add: ebind_def)

lemma getitem_in_range:
  "0 \<le> i \<Longrightarrow> i < int (length xs) \<Longrightarrow> getitem xs i = Inr (xs ! nat i)"
  by (simp add: getitem_def py_index_def)

lemma setitem_in_range:
  "0 \<le> i \<Longrightarrow> i < int (length xs) \<Longrightarrow> setitem xs i v = Inr (xs[nat i := v])"
  by (simp add: setitem_def py_index_def)

lemma for_loop_append:
  "for_loop (r @ r') body s =
     (case for_loop r body s of Inl e \<Rightarrow> Inl e | Inr s' \<Rightarrow> for_loop r' body s')"
  by (induction r arbitrary: s) (simp_all split: sum.splits)

lemma for_loop_upt_invariant:
  assumes "I 0 s"
    and "\<And>k t. k < n \<Longrightarrow> I k t \<Longrightarrow> \<exists>t'. body k t = Inr t' \<and> I (Suc k) t'"
  shows "\<exists>s'. for_loop [0..<n] body s = Inr s' \<and> I n s'"
  using assms(2)
proof (induction n)
  case 0
  then show ?case using assms(1) by simp
next
  case (Suc n)
  have "\<exists>s'. for_loop [0..<n] body s = Inr s' \<and> I n s'"
  proof (rule Suc.IH)
    fix k t assume "k < n" "I k t"
    then show "\<exists>t'. body k t = Inr t' \<and> I (Suc k) t'"
      using Suc.prems [of k t] by simp
  qed
  then obtain s1 where s1: "for_loop [0..<n] body s = Inr s1" "I n s1"
    by blast
  from Suc.prems [of n s1] s1(2) obtain s2 where "body n s1 = Inr s2" "I (Suc n) s2"
    by auto
  then show ?case using s1 by (simp add: for_loop_append)
qed

lemma randoms_Suc:
  "fst (randoms P (Suc n) g) =
     fst (rng_random P g) # fst (randoms P n (snd (rng_random P g)))"
  by (simp add: split_beta)

lemma randoms_length: "length (fst (randoms P n g)) = n"
  by (induction n arbitrary: g) (simp_all add: split_beta)

lemma randoms_range:
  "\<forall>g. 0 \<le> fst (rng_random P g) \<and> fst (rng_random P g) < 1 \<Longrightarrow>
   \<forall>v \<in> set (fst (randoms P n g)). 0 \<le> v \<and> v < 1"
  by (induction n arbitrary: g) (simp_all add: split_beta)

lemma ValueNoise2D_eq:
  "ValueNoise2D P seed =
     \<lparr>perm = fst (rng_shuffle P (rng_seed P seed) (map int [0..<256])) @
              fst (rng_shuffle P (rng_seed P seed) (map int [0..<256])),
      vals = fst (randoms P 256 (snd (rng_shuffle P (rng_seed P seed) (map int [0..<256]))))\<rparr>"
  by (simp add: ValueNoise2D_def Let_def split_beta)

lemma ValueNoise2D_ok:
  assumes "prng_ok P"
  shows "lattice_ok (ValueNoise2D P seed)"
proof -
  let ?p = "fst (rng_shuffle P (rng_seed P seed) (map int [0..<256]))"
  let ?g = "snd (rng_shuffle P (rng_seed P seed) (map int [0..<256]))"
  from assms have m: "mset ?p = mset (map int [0..<256])"
    by (simp add: prng_ok_def)
  have l: "length ?p = 256"
    using mset_eq_length [OF m] by simp
  have "set ?p = set (map int [0..<256])"
    using m by (rule mset_eq_setD)
  then have r: "\<forall>v \<in> set ?p. 0 \<le> v \<and> v < 256"
    by auto
  have vl: "length (fst (randoms P 256 ?g)) = 256"
    by (rule randoms_length)
  have vr: "\<forall>v \<in> set (fst (randoms P 256 ?g)). 0 \<le> v \<and> v < 1"
    using assms by (intro randoms_range) (simp add: prng_ok_def)
  show ?thesis
    unfolding lattice_ok_def ValueNoise2D_eq using l r vl vr by simp
qed

lemma and_255_range: "0 \<le> (k::int) AND 255 \<and> k AND 255 < 256"
proof -
  have "k AND 255 \<le> 255" by (rule AND_upper2) simp
  moreover have "0 \<le> k AND 255" by simp
  ultimately show ?thesis by simp
qed

lemma hash_ok:
  assumes "lattice_ok N"
  shows "hash N ix iy = Inr (hash_value N ix iy)"
    and "0 \<le> hash_value N ix iy" and "hash_value N ix iy < 1"
proof -
  let ?a = "perm N ! nat (ix AND 255)"
  let ?b = "perm N ! nat (?a + (iy AND 255))"
  from assms have lp: "length (perm N) = 512" and lv: "length (vals N) = 256"
    by (simp_all add: lattice_ok_def)
  have pr: "0 \<le> perm N ! i \<and> perm N ! i < 256" if "i < 512" for i
  proof -
    from that lp have "perm N ! i \<in> set (perm N)" by simp
    with assms show ?thesis unfolding lattice_ok_def by blast
  qed
  have vr: "0 \<le> vals N ! i \<and> vals N ! i < 1" if "i < 256" for i
  proof -
    from that lv have "vals N ! i \<in> set (vals N)" by simp
    with assms show ?thesis unfolding lattice_ok_def by blast
  qed
  have x: "0 \<le> ix AND 255" "ix AND 255 < 256" and y: "0 \<le> iy AND 255" "iy AND 255 < 256"
    using and_255_range by blast+
  have 1: "getitem (perm N) (ix AND 255) = Inr ?a"
    using x lp by (intro getitem_in_range) simp_all
  have "nat (ix AND 255) < 512" using x by linarith
  then have a: "0 \<le> ?a" "?a < 256" using pr by blast+
  have 2: "getitem (perm N) (?a + (iy AND 255)) = Inr ?b"
  proof (rule getitem_in_range)
    show "0 \<le> ?a + (iy AND 255)" using a y by linarith
    show "?a + (iy AND 255) < int (length (perm N))" using a y lp by linarith
  qed
  have b: "0 \<le> ?b AND 255" "?b AND 255 < 256" using and_255_range by blast+
  have 3: "getitem (vals N) (?b AND 255) = Inr (vals N ! nat (?b AND 255))"
    using b lv by (intro getitem_in_range) simp_all
  show "hash N ix iy = Inr (hash_value N ix iy)"
    by (simp add: hash_def hash_value_def 1 2 3 ebind_Inr)
  have "nat (?b AND 255) < 256" using b by linarith
  then show "0 \<le> hash_value N ix iy" "hash_value N ix iy < 1"
    unfolding hash_value_def using vr by blast+
qed

lemma smoothstep_range:
  assumes "0 \<le> t" "t \<le> 1"
  shows "0 \<le> smoothstep t" "smoothstep t \<le> 1"
proof -
  have "0 \<le> t * t * (3 - 2 * t)" using assms by simp
  then show "0 \<le> smoothstep t" by (simp add: smoothstep_def)
  have "1 - t * t * (3 - 2 * t) = (1 - t) * (1 - t) * (1 + 2 * t)"
    by (simp add: algebra_simps)
  moreover have "0 \<le> (1 - t) * (1 - t) * (1 + 2 * t)" using assms by simp
  ultimately show "smoothstep t \<le> 1" by (simp add: smoothstep_def)
qed

lemma lerp_range:
  assumes "0 \<le> a" "a < 1" "0 \<le> b" "b < 1" "0 \<le> t" "t \<le> 1"
  shows "0 \<le> lerp a b t" "lerp a b t < 1"
proof -
  have e: "lerp a b t = (1 - t) * a + t * b"
    by (simp add: lerp_def algebra_simps)
  have "0 \<le> (1 - t) * a" "0 \<le> t * b" using assms by simp_all
  then show "0 \<le> lerp a b t" unfolding e by linarith
  have 1: "(1 - t) * a \<le> (1 - t) * 1" "t * b \<le> t * 1"
    using assms by (intro mult_left_mono; simp)+
  have 2: "(1 - t) * a < (1 - t) * 1 \<or> t * b < t * 1"
  proof (cases "t = 0")
    case True
    then show ?thesis using assms by simp
  next
    case False
    then have "0 < t" using assms by simp
    then show ?thesis using assms by simp
  qed
  from 1 2 have "(1 - t) * a + t * b < (1 - t) + t" by auto
  then show "lerp a b t < 1" unfolding e by simp
qed

lemma sample_ok:
  assumes "lattice_ok N"
  shows "sample N x y = Inr (sample_value N x y)"
    and "0 \<le> sample_value N x y" and "sample_value N x y < 1"
proof -
  show "sample N x y = Inr (sample_value N x y)"
    by (simp add: sample_def sample_value_def Let_def hash_ok(1) [OF assms] ebind_Inr)
  have fx: "0 \<le> x - real_of_int \<lfloor>x\<rfloor>" "x - real_of_int \<lfloor>x\<rfloor> \<le> 1"
    and fy: "0 \<le> y - real_of_int \<lfloor>y\<rfloor>" "y - real_of_int \<lfloor>y\<rfloor> \<le> 1"
    by linarith+
  note sx = smoothstep_range [OF fx] and sy = smoothstep_range [OF fy]
  note hv = hash_ok(2,3) [OF assms]
  show "0 \<le> sample_value N x y" "sample_value N x y < 1"
    unfolding sample_value_def
    by (intro lerp_range hv sx sy)+
qed

lemma amplitude_eq: "amplitude i = 0.5 * (1 / 2) ^ i"
  by (induction i) simp_all

lemma frequency_eq: "frequency i = 2 ^ i"
  by (induction i) simp_all

lemma fbm_loop_sum:
  assumes "\<And>i. i < n \<Longrightarrow> sample N (x * (f * 2 ^ i)) (y * (f * 2 ^ i)) = Inr (s i)"
  shows "fbm_loop N x y n v a f = Inr (v + (\<Sum>i<n. a * (1 / 2) ^ i * s i))"
  using assms
proof (induction n arbitrary: v a f s)
  case 0
  then show ?case by simp
next
  case (Suc n)
  have s0: "sample N (x * f) (y * f) = Inr (s 0)"
    using Suc.prems [of 0] by simp
  have "fbm_loop N x y n (v + a * s 0) (a * 0.5) (f * 2) =
          Inr (v + a * s 0 + (\<Sum>i<n. a * 0.5 * (1 / 2) ^ i * s (Suc i)))"
  proof (rule Suc.IH)
    fix i assume "i < n"
    then have "sample N (x * (f * 2 ^ Suc i)) (y * (f * 2 ^ Suc i)) = Inr (s (Suc i))"
      using Suc.prems [of "Suc i"] by simp
    then show "sample N (x * (f * 2 * 2 ^ i)) (y * (f * 2 * 2 ^ i)) = Inr (s (Suc i))"
      by (simp add: mult.assoc)
  qed
  moreover have "(\<Sum>i<Suc n. a * (1 / 2) ^ i * s i) =
      a * s 0 + (\<Sum>i<n. a * 0.5 * (1 / 2) ^ i * s (Suc i))"
    by (subst sum.lessThan_Suc_shift) simp
  ultimately show ?case
    by (simp add: s0 ebind_Inr add.assoc)
qed

lemma fbm_sum:
  assumes "\<And>i. i < nat k \<Longrightarrow> sample N (x * frequency i) (y * frequency i) = Inr (s i)"
  shows "fbm N x y k = Inr (\<Sum>i<nat k. amplitude i * s i)"
proof -
  have "fbm_loop N x y (nat k) 0 0.5 1 = Inr (0 + (\<Sum>i<nat k. 0.5 * (1 / 2) ^ i * s i))"
    using assms by (intro fbm_loop_sum) (simp add: frequency_eq)
  then show ?thesis
    by (simp add: fbm_def amplitude_eq)
qed

lemma amplitude_pos: "0 < amplitude i"
  by (simp add: amplitude_eq)

lemma amplitude_sum: "(\<Sum>i<n. amplitude i) = 1 - (1 / 2) ^ n"
  by (induction n) (simp_all add: amplitude_eq)

lemma fbm_ok:
  assumes "lattice_ok N"
  shows "fbm N x y k = Inr (fbm_value N x y k)"
    and "0 \<le> fbm_value N x y k"
    and "1 \<le> k \<Longrightarrow> fbm_value N x y k < 1 - (1 / 2) ^ nat k"
proof -
  let ?s = "\<lambda>i. sample_value N (x * frequency i) (y * frequency i)"
  show "fbm N x y k = Inr (fbm_value N x y k)"
    unfolding fbm_value_def by (rule fbm_sum) (rule sample_ok(1) [OF assms])
  have nn: "0 \<le> amplitude i * ?s i" for i
    using amplitude_pos [of i] sample_ok(2) [OF assms] by simp
  show "0 \<le> fbm_value N x y k"
    unfolding fbm_value_def by (rule sum_nonneg) (rule nn)
  assume "1 \<le> k"
  then have "0 \<in> {..<nat k}" by simp
  then have ne: "{..<nat k} \<noteq> {}" by blast
  have lt: "amplitude i * ?s i < amplitude i" for i
    using amplitude_pos [of i] sample_ok(3) [OF assms, of "x * frequency i" "y * frequency i"]
    by simp
  have "(\<Sum>i<nat k. amplitude i * ?s i) < (\<Sum>i<nat k. amplitude i)"
    by (rule sum_strict_mono) (use ne lt in auto)
  then show "fbm_value N x y k < 1 - (1 / 2) ^ nat k"
    by (simp add: fbm_value_def amplitude_sum)
qed

lemma row_loop:
  assumes pix: "\<And>x. x < w \<Longrightarrow> pixel x = Inr (f x)"
    and dims: "width t = w" "y < height t"
  shows "for_loop [0..<w] (\<lambda>x img. ebind (pixel x) (putpixel img x y)) t =
           Inr (t\<lparr>px := (\<lambda>(x', y'). if y' = y \<and> x' < w then f x' else px t (x', y'))\<rparr>)"
proof -
  let ?I = "\<lambda>k s. s = t\<lparr>px := (\<lambda>(x', y'). if y' = y \<and> x' < k then f x' else px t (x', y'))\<rparr>"
  have "\<exists>s'. for_loop [0..<w] (\<lambda>x img. ebind (pixel x) (putpixel img x y)) t = Inr s' \<and> ?I w s'"
  proof (rule for_loop_upt_invariant)
    show "?I 0 t" by simp
  next
    fix k s assume k: "k < w" and s: "?I k s"
    have "putpixel s k y (f k) = Inr (s\<lparr>px := (px s)((k, y) := f k)\<rparr>)"
      using k dims by (simp add: putpixel_def s)
    moreover have "?I (Suc k) (s\<lparr>px := (px s)((k, y) := f k)\<rparr>)"
      using s by (auto simp: fun_eq_iff less_Suc_eq)
    ultimately show "\<exists>t'. ebind (pixel k) (putpixel s k y) = Inr t' \<and> ?I (Suc k) t'"
      by (simp add: pix [OF k] ebind_Inr)
  qed
  then show ?thesis by auto
qed

lemma image_loops:
  assumes pix: "\<And>x y. x < w \<Longrightarrow> y < h \<Longrightarrow> pixel x y = Inr (f x y)"
    and dims: "width img = w" "height img = h"
  shows "for_loop [0..<h] (\<lambda>y img.
           for_loop [0..<w] (\<lambda>x img. ebind (pixel x y) (putpixel img x y)) img) img =
         Inr (img\<lparr>px := (\<lambda>(x, y). if x < w \<and> y < h then f x y else px img (x, y))\<rparr>)"
proof -
  let ?I = "\<lambda>k s. s = img\<lparr>px := (\<lambda>(x, y). if x < w \<and> y < k then f x y else px img (x, y))\<rparr>"
  let ?row = "\<lambda>y img. for_loop [0..<w] (\<lambda>x img. ebind (pixel x y) (putpixel img x y)) img"
  have "\<exists>s'. for_loop [0..<h] ?row img = Inr s' \<and> ?I h s'"
  proof (rule for_loop_upt_invariant)
    show "?I 0 img" by simp
  next
    fix k s assume k: "k < h" and s: "?I k s"
    have ws: "width s = w" and hs: "k < height s"
      using dims k by (simp_all add: s)
    have "?row k s =
        Inr (s\<lparr>px := (\<lambda>(x', y'). if y' = k \<and> x' < w then f x' k else px s (x', y'))\<rparr>)"
      using ws hs by (intro row_loop) (simp_all add: pix k)
    moreover have
      "?I (Suc k) (s\<lparr>px := (\<lambda>(x', y'). if y' = k \<and> x' < w then f x' k else px s (x', y'))\<rparr>)"
      using s by (auto simp: fun_eq_iff less_Suc_eq)
    ultimately show "\<exists>t'. ?row k s = Inr t' \<and> ?I (Suc k) t'"
      by simp
  qed
  then show ?thesis by auto
qed

lemma py_int_floor: "0 \<le> v \<Longrightarrow> py_int v = \<lfloor>v\<rfloor>"
  by (simp add: py_int_def)

lemma py_range_nat: "py_range (int n) = [0..<n]"
  by (simp add: py_range_def)

lemma fbm_value_less_1:
  assumes "lattice_ok N" "1 \<le> k"
  shows "fbm_value N x y k < 1"
proof -
  have "fbm_value N x y k < 1 - (1 / 2) ^ nat k"
    using assms by (rule fbm_ok(3))
  also have "\<dots> \<le> 1" by simp
  finally show ?thesis .
qed

lemma texture_value_range:
  assumes "lattice_ok noise1" "lattice_ok noise2" "lattice_ok noise3"
  shows "0 \<le> texture_value noise1 noise2 noise3 sz x y"
    and "texture_value noise1 noise2 noise3 sz x y < 1"
proof -
  let ?nx = "real x / real_of_int sz * 8" and ?ny = "real y / real_of_int sz * 8"
  let ?f1 = "fbm_value noise1 ?nx ?ny 5"
  let ?f2 = "fbm_value noise2 (?nx * 2) (?ny * 2) 4"
  let ?f3 = "fbm_value noise3 (?nx * 6) (?ny * 6) 3"
  have 1: "0 \<le> ?f1" "?f1 < 1"
    using fbm_ok(2) [OF assms(1)] fbm_value_less_1 [OF assms(1)] by simp_all
  have 2: "0 \<le> ?f2" "?f2 < 1"
    using fbm_ok(2) [OF assms(2)] fbm_value_less_1 [OF assms(2)] by simp_all
  have 3: "0 \<le> ?f3" "?f3 < 1"
    using fbm_ok(2) [OF assms(3)] fbm_value_less_1 [OF assms(3)] by simp_all
  have e: "texture_value noise1 noise2 noise3 sz x y = ?f1 * 0.5 + ?f2 * 0.3 + ?f3 * 0.2"
    by (simp add: texture_value_def Let_def)
  show "0 \<le> texture_value noise1 noise2 noise3 sz x y"
    unfolding e using 1 2 3 by simp
  show "texture_value noise1 noise2 noise3 sz x y < 1"
    unfolding e using 1 2 3 by simp
qed

lemma texture_pixel_ok:
  assumes "lattice_ok noise1" "lattice_ok noise2" "lattice_ok noise3" and "sz \<noteq> 0"
  shows "texture_pixel noise1 noise2 noise3 sz x y =
           Inr (\<lfloor>35 + 20 * texture_value noise1 noise2 noise3 sz x y\<rfloor>,
                \<lfloor>30 + 15 * texture_value noise1 noise2 noise3 sz x y\<rfloor>,
                \<lfloor>28 + 12 * texture_value noise1 noise2 noise3 sz x y\<rfloor>, 255)"
proof -
  let ?v = "texture_value noise1 noise2 noise3 sz x y"
  note r = texture_value_range [OF assms(1-3), of sz x y]
  have c: "max 0 (min 1 ?v) = ?v" using r by simp
  have "max 0 (min 255 (35 + 20 * ?v)) = 35 + 20 * ?v"
    "max 0 (min 255 (30 + 15 * ?v)) = 30 + 15 * ?v"
    "max 0 (min 255 (28 + 12 * ?v)) = 28 + 12 * ?v"
    using r by simp_all
  moreover have "0 \<le> 35 + 20 * ?v" "0 \<le> 30 + 15 * ?v" "0 \<le> 28 + 12 * ?v"
    using r by simp_all
  ultimately have ch:
    "py_int (max 0 (min 255 (35 + 20 * ?v))) = \<lfloor>35 + 20 * ?v\<rfloor>"
    "py_int (max 0 (min 255 (30 + 15 * ?v))) = \<lfloor>30 + 15 * ?v\<rfloor>"
    "py_int (max 0 (min 255 (28 + 12 * ?v))) = \<lfloor>28 + 12 * ?v\<rfloor>"
    by (simp_all only: py_int_floor)
  have d: "truediv (real x) (real_of_int sz) = Inr (real x / real_of_int sz)"
    "truediv (real y) (real_of_int sz) = Inr (real y / real_of_int sz)"
    using assms(4) by (simp_all add: truediv_def)
  have v: "fbm_value noise1 (real x / real_of_int sz * 8) (real y / real_of_int sz * 8) 5 * 0.5 +
      fbm_value noise2 (real x / real_of_int sz * 8 * 2) (real y / real_of_int sz * 8 * 2) 4 * 0.3 +
      fbm_value noise3 (real x / real_of_int sz * 8 * 6) (real y / real_of_int sz * 8 * 6) 3 * 0.2
      = ?v"
    by (simp add: texture_value_def Let_def)
  show ?thesis
    unfolding texture_pixel_def d ebind_Inr Let_def
      fbm_ok(1) [OF assms(1)] fbm_ok(1) [OF assms(2)] fbm_ok(1) [OF assms(3)] v c ch
    by (rule refl)
qed

lemma generate_texture_ok:
  assumes "prng_ok P" "0 < sz"
  shows "generate_texture P sz seed =
           Inr \<lparr>width = nat sz, height = nat sz,
                px = (\<lambda>(x, y). if x < nat sz \<and> y < nat sz
                   then (\<lfloor>35 + 20 * texture_value (ValueNoise2D P seed)
                              (ValueNoise2D P (seed + 137)) (ValueNoise2D P (seed + 271)) sz x y\<rfloor>,
                         \<lfloor>30 + 15 * texture_value (ValueNoise2D P seed)
                              (ValueNoise2D P (seed + 137)) (ValueNoise2D P (seed + 271)) sz x y\<rfloor>,
                         \<lfloor>28 + 12 * texture_value (ValueNoise2D P seed)
                              (ValueNoise2D P (seed + 137)) (ValueNoise2D P (seed + 271)) sz x y\<rfloor>,
                         255)
                   else (0, 0, 0, 0))\<rparr>"
proof -
  let ?n1 = "ValueNoise2D P seed" and ?n2 = "ValueNoise2D P (seed + 137)"
  let ?n3 = "ValueNoise2D P (seed + 271)"
  let ?img = "\<lparr>width = nat sz, height = nat sz, px = (\<lambda>_. (0, 0, 0, 0))\<rparr>"
  have new: "Image_new (sz, sz) = Inr ?img"
    using assms(2) by (simp add: Image_new_def)
  note ok = ValueNoise2D_ok [OF assms(1)]
  have nz: "sz \<noteq> 0" using assms(2) by simp
  have "for_loop [0..<nat sz] (\<lambda>y img.
           for_loop [0..<nat sz] (\<lambda>x img.
             ebind (texture_pixel ?n1 ?n2 ?n3 sz x y) (putpixel img x y)) img) ?img =
        Inr (?img\<lparr>px := (\<lambda>(x, y). if x < nat sz \<and> y < nat sz
               then (\<lfloor>35 + 20 * texture_value ?n1 ?n2 ?n3 sz x y\<rfloor>,
                     \<lfloor>30 + 15 * texture_value ?n1 ?n2 ?n3 sz x y\<rfloor>,
                     \<lfloor>28 + 12 * texture_value ?n1 ?n2 ?n3 sz x y\<rfloor>, 255)
               else px ?img (x, y))\<rparr>)"
    by (rule image_loops) (simp_all add: texture_pixel_ok [OF ok ok ok nz])
  then have loops: "for_loop [0..<nat sz] (\<lambda>y img.
           for_loop [0..<nat sz] (\<lambda>x img.
             ebind (texture_pixel ?n1 ?n2 ?n3 sz x y) (putpixel img x y)) img) ?img =
        Inr \<lparr>width = nat sz, height = nat sz,
             px = (\<lambda>(x, y). if x < nat sz \<and> y < nat sz
               then (\<lfloor>35 + 20 * texture_value ?n1 ?n2 ?n3 sz x y\<rfloor>,
                     \<lfloor>30 + 15 * texture_value ?n1 ?n2 ?n3 sz x y\<rfloor>,
                     \<lfloor>28 + 12 * texture_value ?n1 ?n2 ?n3 sz x y\<rfloor>, 255)
               else (0, 0, 0, 0))\<rparr>"
    by (simp add: case_prod_unfold cong del: if_weak_cong)
  show ?thesis
    by (simp add: generate_texture_def Let_def new ebind_Inr py_range_def loops)
qed

lemma generate_texture_nonpositive:
  "sz \<le> 0 \<Longrightarrow> generate_texture P sz seed = Image_new (sz, sz)"
  by (cases "Image_new (sz, sz)")
     (simp_all add: generate_texture_def Let_def py_range_def ebind_def)

lemma counter_prng_ok: "prng_ok counter_prng"
  by (simp add: prng_ok_def counter_prng_def)

lemma randoms_counter:
  "k < n \<Longrightarrow> fst (randoms counter_prng n g) ! k = 1 / (2 + real (g + k))"
proof (induction n arbitrary: g k)
  case 0
  then show ?case by simp
next
  case (Suc n)
  have r: "fst (rng_random counter_prng g) = 1 / (2 + real g)"
    "snd (rng_random counter_prng g) = Suc g"
    by (simp_all add: counter_prng_def)
  show ?case
  proof (cases k)
    case 0
    then show ?thesis by (simp add: split_beta r)
  next
    case (Suc k')
    with Suc.prems have "k' < n" by simp
    from Suc.IH [OF this, of "Suc g"] show ?thesis
      by (simp add: split_beta r Suc)
  qed
qed

lemma counter_lattice:
  "perm (ValueNoise2D counter_prng seed) = rev (map int [0..<256]) @ rev (map int [0..<256])"
  "vals (ValueNoise2D counter_prng seed) = fst (randoms counter_prng 256 (Suc (nat \<bar>seed\<bar>)))"
  by (simp_all add: ValueNoise2D_eq counter_prng_def)

lemma counter_hash_3_m7: "hash_value (ValueNoise2D counter_prng 42) 3 (- 7) = 1 / 55"
proof -
  have a: "(3::int) AND 255 = 3" "(- 7::int) AND 255 = 249" "(10::int) AND 255 = 10"
    by simp_all
  have p: "(rev (map int [0..<256]) @ rev (map int [0..<256])) ! 3 = 252"
    "(rev (map int [0..<256]) @ rev (map int [0..<256])) ! 501 = 10"
    by (simp_all add: nth_append rev_nth)
  show ?thesis
    unfolding hash_value_def counter_lattice a
    by (simp add: p randoms_counter)
qed

lemma height_map_row:
  assumes y: "y < height img" and len: "length hm = height img"
    and rows: "\<forall>r<height img. length (hm ! r) = width img"
  shows "\<exists>hm'. for_loop [0..<width img] (\<lambda>x hm.
           ebind (getpixel img x y) (\<lambda>p.
           ebind (getitem hm (int y)) (\<lambda>row.
           ebind (setitem row (int x) (pixel_height source p)) (\<lambda>row'.
           Inr (hm[y := row']))))) hm = Inr hm' \<and>
         (length hm' = height img \<and> (\<forall>r<height img. length (hm' ! r) = width img) \<and>
          (\<forall>r<height img. r \<noteq> y \<longrightarrow> hm' ! r = hm ! r) \<and>
          (\<forall>x<width img. hm' ! y ! x = height_field img source x y))"
proof -
  let ?J = "\<lambda>k s. length s = height img \<and> (\<forall>r<height img. length (s ! r) = width img) \<and>
          (\<forall>r<height img. r \<noteq> y \<longrightarrow> s ! r = hm ! r) \<and>
          (\<forall>x<k. s ! y ! x = height_field img source x y)"
  show ?thesis
  proof (rule for_loop_upt_invariant [where I = ?J])
    show "?J 0 hm" using len rows by simp
  next
    fix k s assume k: "k < width img" and J: "?J k s"
    let ?v = "pixel_height source (px img (k, y))"
    let ?s' = "s[y := (s ! y)[k := ?v]]"
    have 1: "getpixel img k y = Inr (px img (k, y))"
      using k y by (simp add: getpixel_def)
    have 2: "getitem s (int y) = Inr (s ! y)"
      using J y by (simp add: getitem_in_range)
    have 3: "setitem (s ! y) (int k) ?v = Inr ((s ! y)[k := ?v])"
      using J y k by (simp add: setitem_in_range)
    have "?J (Suc k) ?s'"
      using J y k by (auto simp: nth_list_update less_Suc_eq height_field_def)
    then show "\<exists>t'. ebind (getpixel img k y) (\<lambda>p.
           ebind (getitem s (int y)) (\<lambda>row.
           ebind (setitem row (int k) (pixel_height source p)) (\<lambda>row'.
           Inr (s[y := row'])))) = Inr t' \<and> ?J (Suc k) t'"
      by (simp only: 1 2 3 ebind_Inr) blast
  qed
qed

lemma height_map_ok:
  "height_map img source =
     Inr (map (\<lambda>y. map (\<lambda>x. height_field img source x y) [0..<width img]) [0..<height img])"
proof -
  let ?w = "width img" and ?h = "height img"
  let ?row = "\<lambda>y hm. for_loop [0..<?w] (\<lambda>x hm.
           ebind (getpixel img x y) (\<lambda>p.
           ebind (getitem hm (int y)) (\<lambda>row.
           ebind (setitem row (int x) (pixel_height source p)) (\<lambda>row'.
           Inr (hm[y := row']))))) hm"
  let ?I = "\<lambda>k s. length s = ?h \<and> (\<forall>r<?h. length (s ! r) = ?w) \<and>
          (\<forall>r<k. \<forall>x<?w. s ! r ! x = height_field img source x r)"
  let ?hm0 = "map (\<lambda>_. replicate ?w (0::real)) [0..<?h]"
  have "\<exists>hm. for_loop [0..<?h] ?row ?hm0 = Inr hm \<and> ?I ?h hm"
  proof (rule for_loop_upt_invariant [where I = ?I])
    show "?I 0 ?hm0" by simp
  next
    fix k s assume k: "k < ?h" and I: "?I k s"
    from height_map_row [OF k, of s source] I
    obtain s' where s': "?row k s = Inr s'" "length s' = ?h" "\<forall>r<?h. length (s' ! r) = ?w"
      "\<forall>r<?h. r \<noteq> k \<longrightarrow> s' ! r = s ! r" "\<forall>x<?w. s' ! k ! x = height_field img source x k"
      by blast
    have "?I (Suc k) s'"
      using s'(2-5) I k by (auto simp: less_Suc_eq)
    with s'(1) show "\<exists>t'. ?row k s = Inr t' \<and> ?I (Suc k) t'" by blast
  qed
  then obtain hm where hm: "for_loop [0..<?h] ?row ?hm0 = Inr hm" and I: "?I ?h hm"
    by blast
  have "hm = map (\<lambda>y. map (\<lambda>x. height_field img source x y) [0..<?w]) [0..<?h]"
  proof (rule nth_equalityI)
    show "length hm = length (map (\<lambda>y. map (\<lambda>x. height_field img source x y) [0..<?w]) [0..<?h])"
      using I by simp
  next
    fix r assume "r < length hm"
    then have r: "r < ?h" using I by simp
    have "hm ! r = map (\<lambda>x. height_field img source x r) [0..<?w]"
      using I r by (intro nth_equalityI) simp_all
    then show "hm ! r = map (\<lambda>y. map (\<lambda>x. height_field img source x y) [0..<?w]) [0..<?h] ! r"
      using r by simp
  qed
  with hm show ?thesis
    by (simp add: height_map_def py_range_def)
qed

lemma nearest_valid_clamp:
  "0 < n \<Longrightarrow> nat (max 0 (min (int n - 1) c)) = nearest_valid n c"
  by (auto simp: nearest_valid_def max_def min_def)

lemma nearest_valid_less: "0 < n \<Longrightarrow> nearest_valid n c < n"
  by (auto simp: nearest_valid_def)

lemma nearest_valid_nearest:
  "k < n \<Longrightarrow> \<bar>c - int (nearest_valid n c)\<bar> \<le> \<bar>c - int k\<bar>"
  by (auto simp: nearest_valid_def)

lemma h_read_ok:
  assumes "x < width img" "y < height img"
  shows "h_read (map (\<lambda>y. map (\<lambda>x. height_field img source x y) [0..<width img])
                   [0..<height img]) (width img) (height img) x y dx dy =
           Inr (height_field img source (nearest_valid (width img) (int x + dx))
                  (nearest_valid (height img) (int y + dy)))"
proof -
  let ?w = "width img" and ?h = "height img"
  let ?hm = "map (\<lambda>y. map (\<lambda>x. height_field img source x y) [0..<?w]) [0..<?h]"
  let ?sx = "max 0 (min (int ?w - 1) (int x + dx))"
  let ?sy = "max 0 (min (int ?h - 1) (int y + dy))"
  have w: "0 < ?w" and h: "0 < ?h" using assms by simp_all
  have sx: "0 \<le> ?sx" "?sx < int ?w" and sy: "0 \<le> ?sy" "?sy < int ?h"
    using w h by simp_all
  have nx: "nat ?sx = nearest_valid ?w (int x + dx)"
    and ny: "nat ?sy = nearest_valid ?h (int y + dy)"
    using w h by (simp_all only: nearest_valid_clamp)
  have lx: "nearest_valid ?w (int x + dx) < ?w" and ly: "nearest_valid ?h (int y + dy) < ?h"
    using w h by (simp_all only: nearest_valid_less)
  have 1: "getitem ?hm ?sy = Inr (?hm ! nat ?sy)"
    using sy by (intro getitem_in_range) simp_all
  have r: "?hm ! nat ?sy =
      map (\<lambda>x. height_field img source x (nearest_valid ?h (int y + dy))) [0..<?w]"
    unfolding ny using ly by simp
  have 2: "getitem (map (\<lambda>x. height_field img source x (nearest_valid ?h (int y + dy))) [0..<?w]) ?sx
      = Inr (map (\<lambda>x. height_field img source x (nearest_valid ?h (int y + dy))) [0..<?w] ! nat ?sx)"
    using sx by (intro getitem_in_range) simp_all
  have v: "map (\<lambda>x. height_field img source x (nearest_valid ?h (int y + dy))) [0..<?w] ! nat ?sx
      = height_field img source (nearest_valid ?w (int x + dx)) (nearest_valid ?h (int y + dy))"
    unfolding nx using lx by simp
  show ?thesis
    unfolding h_read_def Let_def 1 ebind_Inr r 2 v by (rule refl)
qed

lemma apply_kernel_Kx:
  "apply_kernel Kx H w ht x y =
     - 1 * H (nearest_valid w (int x + - 1)) (nearest_valid ht (int y + - 1)) +
     1 * H (nearest_valid w (int x + 1)) (nearest_valid ht (int y + - 1)) +
     - 2 * H (nearest_valid w (int x + - 1)) (nearest_valid ht (int y + 0)) +
     2 * H (nearest_valid w (int x + 1)) (nearest_valid ht (int y + 0)) +
     - 1 * H (nearest_valid w (int x + - 1)) (nearest_valid ht (int y + 1)) +
     1 * H (nearest_valid w (int x + 1)) (nearest_valid ht (int y + 1))"
  by (simp add: apply_kernel_def Kx_def numeral_3_eq_3 add.commute)

lemma apply_kernel_Ky:
  "apply_kernel Ky H w ht x y =
     - 1 * H (nearest_valid w (int x + - 1)) (nearest_valid ht (int y + - 1)) +
     - 2 * H (nearest_valid w (int x + 0)) (nearest_valid ht (int y + - 1)) +
     - 1 * H (nearest_valid w (int x + 1)) (nearest_valid ht (int y + - 1)) +
     1 * H (nearest_valid w (int x + - 1)) (nearest_valid ht (int y + 1)) +
     2 * H (nearest_valid w (int x + 0)) (nearest_valid ht (int y + 1)) +
     1 * H (nearest_valid w (int x + 1)) (nearest_valid ht (int y + 1))"
  by (simp add: apply_kernel_def Ky_def numeral_3_eq_3 add.commute)

lemma sobel_ok:
  assumes "x < width img" "y < height img"
  shows "sobel_gx (map (\<lambda>y. map (\<lambda>x. height_field img source x y) [0..<width img])
                     [0..<height img]) (width img) (height img) x y =
           Inr (apply_kernel Kx (height_field img source) (width img) (height img) x y)"
    and "sobel_gy (map (\<lambda>y. map (\<lambda>x. height_field img source x y) [0..<width img])
                     [0..<height img]) (width img) (height img) x y =
           Inr (apply_kernel Ky (height_field img source) (width img) (height img) x y)"
  unfolding sobel_gx_def sobel_gy_def h_read_ok [OF assms] ebind_Inr
    apply_kernel_Kx apply_kernel_Ky
  by (rule refl)+

lemma gradient_ok:
  assumes "x < width img" "y < height img"
  shows "gradient (map (\<lambda>y. map (\<lambda>x. height_field img source x y) [0..<width img])
                     [0..<height img]) (width img) (height img) strength x y =
           Inr (gradient_value img source strength x y)"
  by (simp add: gradient_def sobel_ok [OF assms] ebind_Inr gradient_value_def)

lemma normal_length_ok:
  "normal_length gx gy = Inr (sqrt (gx * gx + gy * gy + 1))"
  "1 \<le> sqrt (gx * gx + gy * gy + 1)"
proof -
  have "0 \<le> gx * gx + gy * gy" by simp
  then have "\<not> gx * gx + gy * gy + 1 < 0" by linarith
  then show "normal_length gx gy = Inr (sqrt (gx * gx + gy * gy + 1))"
    by (simp add: normal_length_def math_sqrt_def Let_def)
  show "1 \<le> sqrt (gx * gx + gy * gy + 1)" by simp
qed

lemma normal_vector_ok: "normal_vector gx gy = Inr (unit_normal (gx, gy))"
proof -
  have "sqrt (gx * gx + gy * gy + 1) \<noteq> 0"
    using normal_length_ok(2) [of gx gy] by linarith
  then show ?thesis
    by (simp add: normal_vector_def normal_length_ok(1) ebind_Inr truediv_def unit_normal_def
        Let_def)
qed

lemma normal_pixel_ok:
  assumes "x < width img" "y < height img"
  shows "normal_pixel img (map (\<lambda>y. map (\<lambda>x. height_field img source x y) [0..<width img])
                     [0..<height img]) strength x y =
           Inr (normal_map_pixel img source strength x y)"
proof -
  have g: "getpixel img x y = Inr (px img (x, y))"
    using assms by (simp add: getpixel_def)
  obtain gx gy where e: "gradient_value img source strength x y = (gx, gy)"
    by (cases "gradient_value img source strength x y")
  show ?thesis
    by (simp add: normal_pixel_def gradient_ok [OF assms] e ebind_Inr normal_vector_ok g
        split_beta normal_map_pixel_def alpha_def)
qed

lemma sobel_normal_map_ok:
  "sobel_normal_map img strength source =
     Inr \<lparr>width = width img, height = height img,
          px = (\<lambda>(x, y). if x < width img \<and> y < height img
                  then normal_map_pixel img source strength x y else (0, 0, 0, 0))\<rparr>"
proof -
  let ?w = "width img" and ?h = "height img"
  let ?hm = "map (\<lambda>y. map (\<lambda>x. height_field img source x y) [0..<?w]) [0..<?h]"
  let ?new = "\<lparr>width = ?w, height = ?h, px = (\<lambda>_. (0, 0, 0, 0))\<rparr>"
  have new: "Image_new (int ?w, int ?h) = Inr ?new"
    by (simp add: Image_new_def)
  have "for_loop [0..<?h] (\<lambda>y out.
           for_loop [0..<?w] (\<lambda>x out.
             ebind (normal_pixel img ?hm strength x y) (putpixel out x y)) out) ?new =
        Inr (?new\<lparr>px := (\<lambda>(x, y). if x < ?w \<and> y < ?h
               then normal_map_pixel img source strength x y else px ?new (x, y))\<rparr>)"
    by (rule image_loops) (simp_all add: normal_pixel_ok)
  then have loops: "for_loop [0..<?h] (\<lambda>y out.
           for_loop [0..<?w] (\<lambda>x out.
             ebind (normal_pixel img ?hm strength x y) (putpixel out x y)) out) ?new =
        Inr \<lparr>width = ?w, height = ?h,
             px = (\<lambda>(x, y). if x < ?w \<and> y < ?h
               then normal_map_pixel img source strength x y else (0, 0, 0, 0))\<rparr>"
    by (simp add: case_prod_unfold cong del: if_weak_cong)
  show ?thesis
    by (simp add: sobel_normal_map_def height_map_ok new ebind_Inr py_range_def loops)
qed

lemma py_int_clamp:
  "py_int (max 0 (min 255 t)) = max 0 (min 255 \<lfloor>t\<rfloor>)"
proof -
  have "py_int (max 0 (min 255 t)) = \<lfloor>max 0 (min 255 t)\<rfloor>"
    by (simp add: py_int_def)
  also have "\<dots> = max 0 (min 255 \<lfloor>t\<rfloor>)"
  proof (cases "t < 0")
    case True
    then have "\<lfloor>t\<rfloor> < 0" by (simp add: floor_less_iff)
    with True show ?thesis by simp
  next
    case False
    show ?thesis
    proof (cases "255 \<le> t")
      case True
      then have "255 \<le> \<lfloor>t\<rfloor>" by (simp add: le_floor_iff)
      with True show ?thesis by simp
    next
      case f: False
      then have "\<lfloor>t\<rfloor> \<le> 255" by (simp add: floor_le_iff)
      moreover have "0 \<le> \<lfloor>t\<rfloor>" using False by simp
      ultimately show ?thesis using False f by simp
    qed
  qed
  finally show ?thesis .
qed

lemma encode_channel_floor:
  "encode_channel n = max 0 (min 255 \<lfloor>(n * 0.5 + 0.5) * 255\<rfloor>)"
  by (simp only: encode_channel_def py_int_clamp)







section \<open>Properties of generate_bg_texture.py\<close>

text \<open>
  Claim C8. For every seed and all integers \<open>ix\<close>, \<open>iy\<close>, sampling at the lattice point
  \<open>(ix, iy)\<close> returns exactly the entry of the value table that the permutation hash of
  \<open>(ix, iy)\<close> selects, which is what \<^verbatim>\<open>_hash(ix, iy)\<close> returns: the fractional parts
  are 0, \<open>smoothstep 0 = 0\<close>, and a \<open>lerp\<close> at 0 is its first endpoint.
\<close>

theorem sample_at_lattice_point:
  assumes "prng_ok P"
  shows "sample (ValueNoise2D P seed) (real_of_int ix) (real_of_int iy) =
           Inr (vals (ValueNoise2D P seed) !
                  nat (perm (ValueNoise2D P seed) !
                         nat (perm (ValueNoise2D P seed) ! nat (ix AND 255) + (iy AND 255))
                       AND 255))
         \<and> sample (ValueNoise2D P seed) (real_of_int ix) (real_of_int iy) =
             hash (ValueNoise2D P seed) ix iy
         \<and> smoothstep 0 = 0 \<and> (\<forall>a b. lerp a b 0 = a)"
proof -
  note ok = ValueNoise2D_ok [OF assms, of seed]
  have "sample_value (ValueNoise2D P seed) (real_of_int ix) (real_of_int iy) =
          hash_value (ValueNoise2D P seed) ix iy"
    by (simp add: sample_value_def smoothstep_def lerp_def)
  then show ?thesis
    by (simp add: sample_ok(1) [OF ok] hash_ok(1) [OF ok] hash_value_def smoothstep_def lerp_def)
qed

theorem sample_at_lattice_point_witness:
  "prng_ok counter_prng \<and>
   sample (ValueNoise2D counter_prng 42) (real_of_int 3) (real_of_int (- 7)) = Inr (1 / 55) \<and>
   hash (ValueNoise2D counter_prng 42) 3 (- 7) = Inr (1 / 55)"
proof -
  note t = sample_at_lattice_point [OF counter_prng_ok, of 42 3 "- 7"]
  from t have "sample (ValueNoise2D counter_prng 42) (real_of_int 3) (real_of_int (- 7)) =
      Inr (hash_value (ValueNoise2D counter_prng 42) 3 (- 7))"
    unfolding hash_value_def by (rule conjunct1)
  moreover from t have "sample (ValueNoise2D counter_prng 42) (real_of_int 3) (real_of_int (- 7)) =
      hash (ValueNoise2D counter_prng 42) 3 (- 7)"
    by blast
  ultimately show ?thesis
    using counter_prng_ok by (simp only: counter_hash_3_m7)
qed

text \<open>
  Claim C7. For every noise field, coordinates \<open>(x, y)\<close> and octave count \<open>k\<close>, whenever
  the \<open>k\<close> samples return, \<^verbatim>\<open>fbm\<close> returns the sum over \<open>i = 0..k-1\<close> of
  \<open>amplitude i * field.sample(x * frequency i, y * frequency i)\<close>, with the amplitudes
  starting at 0.5 and halving and the frequencies starting at 1 and doubling. The sum is
  empty for \<open>k \<le> 0\<close>.
\<close>

theorem fbm_octave_sum:
  assumes "\<forall>i<nat k. sample N (x * frequency i) (y * frequency i) = Inr (s i)"
  shows "fbm N x y k = Inr (\<Sum>i<nat k. amplitude i * s i)"
  using assms by (intro fbm_sum) simp

theorem fbm_octave_sum_witness:
  "sample (ValueNoise2D counter_prng 42) (0.3 * frequency 0) (1.7 * frequency 0) =
     Inr (sample_value (ValueNoise2D counter_prng 42) (0.3 * frequency 0) (1.7 * frequency 0)) \<and>
   sample (ValueNoise2D counter_prng 42) (0.3 * frequency 1) (1.7 * frequency 1) =
     Inr (sample_value (ValueNoise2D counter_prng 42) (0.3 * frequency 1) (1.7 * frequency 1)) \<and>
   sample (ValueNoise2D counter_prng 42) (0.3 * frequency 2) (1.7 * frequency 2) =
     Inr (sample_value (ValueNoise2D counter_prng 42) (0.3 * frequency 2) (1.7 * frequency 2)) \<and>
   fbm (ValueNoise2D counter_prng 42) 0.3 1.7 3 =
     Inr (\<Sum>i<nat 3. amplitude i *
            sample_value (ValueNoise2D counter_prng 42) (0.3 * frequency i) (1.7 * frequency i))"
proof -
  note s = sample_ok(1) [OF ValueNoise2D_ok [OF counter_prng_ok]]
  have h: "\<forall>i<nat 3. sample (ValueNoise2D counter_prng 42) (0.3 * frequency i) (1.7 * frequency i) =
       Inr (sample_value (ValueNoise2D counter_prng 42) (0.3 * frequency i) (1.7 * frequency i))"
    by (simp add: s)
  show ?thesis
    by (intro conjI) (rule s fbm_octave_sum [OF h])+
qed

text \<open>
  Claim C4. For every seed and every pair of real coordinates, negative ones included,
  \<^verbatim>\<open>sample\<close> returns a value in \<open>[0, 1)\<close>; and for every size \<open>n > 0\<close> and seed,
  \<^verbatim>\<open>generate_texture\<close> returns an \<open>n \<times> n\<close> image every pixel of which has its three
  colour channels in \<open>[0, 255]\<close> and alpha 255.
\<close>

theorem sample_and_texture_range:
  assumes "prng_ok P"
  shows "(\<exists>v. sample (ValueNoise2D P seed) x y = Inr v \<and> 0 \<le> v \<and> v < 1) \<and>
         (0 < n \<longrightarrow>
            (\<exists>img. generate_texture P n seed = Inr img \<and>
               width img = nat n \<and> height img = nat n \<and>
               (\<forall>i<nat n. \<forall>j<nat n. \<exists>r g b. px img (i, j) = (r, g, b, 255) \<and>
                   0 \<le> r \<and> r \<le> 255 \<and> 0 \<le> g \<and> g \<le> 255 \<and> 0 \<le> b \<and> b \<le> 255)))"
proof (intro conjI impI)
  note ok = ValueNoise2D_ok [OF assms]
  show "\<exists>v. sample (ValueNoise2D P seed) x y = Inr v \<and> 0 \<le> v \<and> v < 1"
    using sample_ok [OF ok] by blast
  assume n: "0 < n"
  let ?v = "texture_value (ValueNoise2D P seed) (ValueNoise2D P (seed + 137))
              (ValueNoise2D P (seed + 271)) n"
  have r: "0 \<le> ?v i j" "?v i j < 1" for i j
    using texture_value_range [OF ok ok ok] by blast+
  have "0 \<le> \<lfloor>35 + 20 * ?v i j\<rfloor> \<and> \<lfloor>35 + 20 * ?v i j\<rfloor> \<le> 255 \<and>
        0 \<le> \<lfloor>30 + 15 * ?v i j\<rfloor> \<and> \<lfloor>30 + 15 * ?v i j\<rfloor> \<le> 255 \<and>
        0 \<le> \<lfloor>28 + 12 * ?v i j\<rfloor> \<and> \<lfloor>28 + 12 * ?v i j\<rfloor> \<le> 255" for i j
    using r [of i j] by (simp add: le_floor_iff floor_le_iff)
  then show "\<exists>img. generate_texture P n seed = Inr img \<and>
               width img = nat n \<and> height img = nat n \<and>
               (\<forall>i<nat n. \<forall>j<nat n. \<exists>r g b. px img (i, j) = (r, g, b, 255) \<and>
                   0 \<le> r \<and> r \<le> 255 \<and> 0 \<le> g \<and> g \<le> 255 \<and> 0 \<le> b \<and> b \<le> 255)"
    by (simp add: generate_texture_ok [OF assms n])
qed

theorem sample_and_texture_range_witness:
  "prng_ok counter_prng \<and>
   (\<exists>v. sample (ValueNoise2D counter_prng 42) (- 1.5) 2.25 = Inr v \<and> 0 \<le> v \<and> v < 1) \<and>
   (0::int) < 2 \<and>
   (\<exists>img. generate_texture counter_prng 2 42 = Inr img \<and>
      width img = nat 2 \<and> height img = nat 2 \<and>
      (\<forall>i<nat 2. \<forall>j<nat 2. \<exists>r g b. px img (i, j) = (r, g, b, 255) \<and>
          0 \<le> r \<and> r \<le> 255 \<and> 0 \<le> g \<and> g \<le> 255 \<and> 0 \<le> b \<and> b \<le> 255))"
  using sample_and_texture_range [OF counter_prng_ok, where seed = 42 and x = "- 1.5" and y = "2.25" and n = 2] counter_prng_ok
  by simp

text \<open>
  Claim C10. For every size \<open>n > 0\<close>, seed and pixel \<open>(i, j)\<close> of the texture, the three
  \<^verbatim>\<open>fbm\<close> calls return values \<open>f1 \<in> [0, 1 - 2\<^sup>-\<^sup>5)\<close>, \<open>f2 \<in> [0, 1 - 2\<^sup>-\<^sup>4)\<close> and
  \<open>f3 \<in> [0, 1 - 2\<^sup>-\<^sup>3)\<close>; the combined value \<open>v = 0.5 f1 + 0.3 f2 + 0.2 f3\<close> lies in
  \<open>[0, 1)\<close> before it is clamped, so neither the clamp of \<open>v\<close> to \<open>[0, 1]\<close> nor the three
  channel clamps to \<open>[0, 255]\<close> change their argument; and the stored pixel has
  \<open>35 \<le> R \<le> 55\<close>, \<open>30 \<le> G \<le> 45\<close> and \<open>28 \<le> B \<le> 40\<close>.
\<close>

theorem texture_clamps_never_bind:
  assumes "prng_ok P" and "0 < n" and "i < nat n" and "j < nat n"
  shows "\<exists>f1 f2 f3 img.
           fbm (ValueNoise2D P seed) (real i / real_of_int n * 8) (real j / real_of_int n * 8) 5
             = Inr f1 \<and>
           fbm (ValueNoise2D P (seed + 137)) (real i / real_of_int n * 8 * 2)
             (real j / real_of_int n * 8 * 2) 4 = Inr f2 \<and>
           fbm (ValueNoise2D P (seed + 271)) (real i / real_of_int n * 8 * 6)
             (real j / real_of_int n * 8 * 6) 3 = Inr f3 \<and>
           0 \<le> f1 \<and> f1 < 1 - 1 / 2 ^ 5 \<and> 0 \<le> f2 \<and> f2 < 1 - 1 / 2 ^ 4 \<and>
           0 \<le> f3 \<and> f3 < 1 - 1 / 2 ^ 3 \<and>
           0 \<le> f1 * 0.5 + f2 * 0.3 + f3 * 0.2 \<and> f1 * 0.5 + f2 * 0.3 + f3 * 0.2 < 1 \<and>
           max 0 (min 1 (f1 * 0.5 + f2 * 0.3 + f3 * 0.2)) = f1 * 0.5 + f2 * 0.3 + f3 * 0.2 \<and>
           max 0 (min 255 (35 + 20 * (f1 * 0.5 + f2 * 0.3 + f3 * 0.2))) =
             35 + 20 * (f1 * 0.5 + f2 * 0.3 + f3 * 0.2) \<and>
           max 0 (min 255 (30 + 15 * (f1 * 0.5 + f2 * 0.3 + f3 * 0.2))) =
             30 + 15 * (f1 * 0.5 + f2 * 0.3 + f3 * 0.2) \<and>
           max 0 (min 255 (28 + 12 * (f1 * 0.5 + f2 * 0.3 + f3 * 0.2))) =
             28 + 12 * (f1 * 0.5 + f2 * 0.3 + f3 * 0.2) \<and>
           generate_texture P n seed = Inr img \<and>
           px img (i, j) =
             (\<lfloor>35 + 20 * (f1 * 0.5 + f2 * 0.3 + f3 * 0.2)\<rfloor>,
              \<lfloor>30 + 15 * (f1 * 0.5 + f2 * 0.3 + f3 * 0.2)\<rfloor>,
              \<lfloor>28 + 12 * (f1 * 0.5 + f2 * 0.3 + f3 * 0.2)\<rfloor>, 255) \<and>
           35 \<le> fst (px img (i, j)) \<and> fst (px img (i, j)) \<le> 55 \<and>
           30 \<le> fst (snd (px img (i, j))) \<and> fst (snd (px img (i, j))) \<le> 45 \<and>
           28 \<le> fst (snd (snd (px img (i, j)))) \<and> fst (snd (snd (px img (i, j)))) \<le> 40"
proof -
  let ?n1 = "ValueNoise2D P seed" and ?n2 = "ValueNoise2D P (seed + 137)"
  let ?n3 = "ValueNoise2D P (seed + 271)"
  let ?nx = "real i / real_of_int n * 8" and ?ny = "real j / real_of_int n * 8"
  let ?f1 = "fbm_value ?n1 ?nx ?ny 5"
  let ?f2 = "fbm_value ?n2 (?nx * 2) (?ny * 2) 4"
  let ?f3 = "fbm_value ?n3 (?nx * 6) (?ny * 6) 3"
  let ?v = "?f1 * 0.5 + ?f2 * 0.3 + ?f3 * 0.2"
  note ok = ValueNoise2D_ok [OF assms(1)]
  have 1: "0 \<le> ?f1" "?f1 < 1 - 1 / 2 ^ 5"
    using fbm_ok(2) [OF ok] fbm_ok(3) [OF ok [of seed], where k = 5 and x = ?nx and y = ?ny]
    by (simp_all add: power_one_over)
  have 2: "0 \<le> ?f2" "?f2 < 1 - 1 / 2 ^ 4"
    using fbm_ok(2) [OF ok]
      fbm_ok(3) [OF ok [of "seed + 137"], where k = 4 and x = "?nx * 2" and y = "?ny * 2"]
    by (simp_all add: power_one_over)
  have 3: "0 \<le> ?f3" "?f3 < 1 - 1 / 2 ^ 3"
    using fbm_ok(2) [OF ok]
      fbm_ok(3) [OF ok [of "seed + 271"], where k = 3 and x = "?nx * 6" and y = "?ny * 6"]
    by (simp_all add: power_one_over)
  have v: "texture_value ?n1 ?n2 ?n3 n i j = ?v"
    by (simp add: texture_value_def Let_def)
  have r: "0 \<le> ?v" "?v < 1"
    using texture_value_range [OF ok [of seed] ok [of "seed + 137"] ok [of "seed + 271"], of n i j]
    unfolding v by blast+
  have c: "max 0 (min 1 ?v) = ?v"
    "max 0 (min 255 (35 + 20 * ?v)) = 35 + 20 * ?v"
    "max 0 (min 255 (30 + 15 * ?v)) = 30 + 15 * ?v"
    "max 0 (min 255 (28 + 12 * ?v)) = 28 + 12 * ?v"
    using r by simp_all
  obtain img where g: "generate_texture P n seed = Inr img"
    and p: "px img (i, j) = (\<lfloor>35 + 20 * ?v\<rfloor>, \<lfloor>30 + 15 * ?v\<rfloor>, \<lfloor>28 + 12 * ?v\<rfloor>, 255)"
    using assms(3,4) by (simp add: generate_texture_ok [OF assms(1,2)] v)
  have b: "35 \<le> \<lfloor>35 + 20 * ?v\<rfloor>" "\<lfloor>35 + 20 * ?v\<rfloor> \<le> 55"
    "30 \<le> \<lfloor>30 + 15 * ?v\<rfloor>" "\<lfloor>30 + 15 * ?v\<rfloor> \<le> 45"
    "28 \<le> \<lfloor>28 + 12 * ?v\<rfloor>" "\<lfloor>28 + 12 * ?v\<rfloor> \<le> 40"
    using r by (simp_all add: le_floor_iff floor_le_iff)
  have f: "fbm ?n1 ?nx ?ny 5 = Inr ?f1" "fbm ?n2 (?nx * 2) (?ny * 2) 4 = Inr ?f2"
    "fbm ?n3 (?nx * 6) (?ny * 6) 3 = Inr ?f3"
    by (rule fbm_ok(1) [OF ok])+
  have q: "35 \<le> fst (px img (i, j))" "fst (px img (i, j)) \<le> 55"
    "30 \<le> fst (snd (px img (i, j)))" "fst (snd (px img (i, j))) \<le> 45"
    "28 \<le> fst (snd (snd (px img (i, j))))" "fst (snd (snd (px img (i, j)))) \<le> 40"
    unfolding p fst_conv snd_conv by (rule b)+
  show ?thesis
    apply (rule exI [of _ ?f1], rule exI [of _ ?f2], rule exI [of _ ?f3], rule exI [of _ img])
    apply (intro conjI)
    apply (rule f 1 2 3 r c g p q)+
    done
qed

theorem texture_clamps_never_bind_witness:
  "prng_ok counter_prng \<and> (0::int) < 2 \<and> (1::nat) < nat 2 \<and> (0::nat) < nat 2 \<and>
   (\<exists>img. generate_texture counter_prng 2 42 = Inr img \<and>
      35 \<le> fst (px img (1, 0)) \<and> fst (px img (1, 0)) \<le> 55 \<and>
      30 \<le> fst (snd (px img (1, 0))) \<and> fst (snd (px img (1, 0))) \<le> 45 \<and>
      28 \<le> fst (snd (snd (px img (1, 0)))) \<and> fst (snd (snd (px img (1, 0)))) \<le> 40)"
proof -
  have h: "(0::int) < 2" "(1::nat) < nat 2" "(0::nat) < nat 2" by simp_all
  from texture_clamps_never_bind [OF counter_prng_ok h, of 42] counter_prng_ok h
  show ?thesis by blast
qed

text \<open>
  Claim C3, as the code has it. The tool has no check of the size; what refuses a size is
  \<^verbatim>\<open>Image.new\<close>. For every \<open>n < 0\<close> the request fails before any pixel computation
  starts: \<^verbatim>\<open>Image.new\<close> raises for the negative dimension, \<^verbatim>\<open>generate_texture\<close> and
  \<^verbatim>\<open>main\<close> end with that error, and nothing is written. For every \<open>n \<le> 0\<close> the two
  pixel loops have no iteration. For \<open>n = 0\<close> nothing is refused before the synthesis:
  \<^verbatim>\<open>generate_texture\<close> returns an image of size \<open>0 \<times> 0\<close>, and what \<^verbatim>\<open>main\<close> does is
  what writing that image does. For every \<open>n > 0\<close> the synthesis returns an \<open>n \<times> n\<close>
  image, it has no failure of its own, and \<^verbatim>\<open>main\<close> fails only if the writing does.
\<close>

theorem generate_texture_no_size_check:
  "(n < 0 \<longrightarrow> Image_new (n, n) = Inl ValueError \<and>
      generate_texture P n seed = Inl ValueError \<and> main P save n seed = Inl ValueError) \<and>
   (n \<le> 0 \<longrightarrow> py_range n = []) \<and>
   (n = 0 \<longrightarrow>
      generate_texture P n seed = Inr \<lparr>width = 0, height = 0, px = (\<lambda>_. (0, 0, 0, 0))\<rparr> \<and>
      main P save n seed = save \<lparr>width = 0, height = 0, px = (\<lambda>_. (0, 0, 0, 0))\<rparr>) \<and>
   (prng_ok P \<and> 0 < n \<longrightarrow>
      (\<exists>img. generate_texture P n seed = Inr img \<and> width img = nat n \<and> height img = nat n \<and>
         main P save n seed = save img))"
proof (intro conjI impI)
  assume n: "n < 0"
  then show new: "Image_new (n, n) = Inl ValueError"
    by (simp add: Image_new_def)
  from n show g: "generate_texture P n seed = Inl ValueError"
    by (simp add: generate_texture_nonpositive new)
  show "main P save n seed = Inl ValueError"
    by (simp add: main_def g ebind_Inl)
next
  assume "n \<le> 0"
  then show "py_range n = []" by (simp add: py_range_def)
next
  assume n: "n = 0"
  show g: "generate_texture P n seed = Inr \<lparr>width = 0, height = 0, px = (\<lambda>_. (0, 0, 0, 0))\<rparr>"
    by (simp add: n generate_texture_nonpositive Image_new_def)
  show "main P save n seed = save \<lparr>width = 0, height = 0, px = (\<lambda>_. (0, 0, 0, 0))\<rparr>"
    by (simp add: main_def g ebind_Inr)
next
  assume "prng_ok P \<and> 0 < n"
  then show "\<exists>img. generate_texture P n seed = Inr img \<and> width img = nat n \<and>
      height img = nat n \<and> main P save n seed = save img"
    by (simp add: generate_texture_ok main_def ebind_Inr)
qed

theorem generate_texture_no_size_check_witness:
  "(- 3::int) < 0 \<and> generate_texture counter_prng (- 3) 42 = Inl ValueError \<and>
   main counter_prng save_nonempty (- 3) 42 = Inl ValueError \<and> py_range (- 3) = [] \<and>
   generate_texture counter_prng 0 42 = Inr \<lparr>width = 0, height = 0, px = (\<lambda>_. (0, 0, 0, 0))\<rparr> \<and>
   main counter_prng save_nonempty 0 42 = Inl CodecFailure \<and>
   prng_ok counter_prng \<and> (0::int) < 2 \<and>
   (\<exists>img. generate_texture counter_prng 2 42 = Inr img \<and>
      main counter_prng save_nonempty 2 42 = Inr ())"
proof -
  note a = generate_texture_no_size_check [of "- 3" counter_prng 42 save_nonempty]
  note b = generate_texture_no_size_check [of 0 counter_prng 42 save_nonempty]
  note c = generate_texture_no_size_check [of 2 counter_prng 42 save_nonempty]
  have s: "save_nonempty \<lparr>width = 0, height = 0, px = (\<lambda>_. (0, 0, 0, 0))\<rparr> = Inl CodecFailure"
    by (simp add: save_nonempty_def)
  from c counter_prng_ok
  obtain img where i: "generate_texture counter_prng 2 42 = Inr img" "width img = nat 2"
    "height img = nat 2" "main counter_prng save_nonempty 2 42 = save_nonempty img"
    by auto
  from i(2,3) have "save_nonempty img = Inr ()" by (simp add: save_nonempty_def)
  with i have "\<exists>img. generate_texture counter_prng 2 42 = Inr img \<and>
      main counter_prng save_nonempty 2 42 = Inr ()"
    by simp
  with a b s counter_prng_ok show ?thesis by simp
qed

text \<open>
  The claim as stated, that every size \<open>n \<le> 0\<close> is rejected, fails at \<open>n = 0\<close>: the
  call returns, and what it returns is an image of size \<open>0 \<times> 0\<close>.
\<close>

theorem generate_texture_size_zero_accepted:
  "\<not> isl (generate_texture counter_prng 0 42) \<and>
   width (projr (generate_texture counter_prng 0 42)) = 0 \<and>
   height (projr (generate_texture counter_prng 0 42)) = 0"
  by (simp add: generate_texture_nonpositive Image_new_def)


section \<open>Properties of generate_normals.py\<close>

text \<open>
  Claim C1, as the code has it. For every normal \<open>(nx, ny, nz)\<close>, a unit vector or not,
  and every source alpha \<open>a\<close>, the encoding step produces the pixel whose colour
  channels are \<open>clamp(floor((n * 0.5 + 0.5) * 255), 0, 255)\<close> for \<open>n = nx, ny, nz\<close> and
  whose alpha is \<open>a\<close>: \<^verbatim>\<open>int()\<close> truncates the clamped value, it does not round it to
  the nearest integer.
\<close>

theorem encode_truncates:
  "encode (nx, ny, nz) a =
     (max 0 (min 255 \<lfloor>(nx * 0.5 + 0.5) * 255\<rfloor>),
      max 0 (min 255 \<lfloor>(ny * 0.5 + 0.5) * 255\<rfloor>),
      max 0 (min 255 \<lfloor>(nz * 0.5 + 0.5) * 255\<rfloor>), a)"
  by (simp only: encode_def encode_channel_floor prod.case)

text \<open>
  The claim as stated, with \<open>round\<close>, fails at the unit normal \<open>(0, 0, 1)\<close> of a flat
  surface, where the code gives 127 and rounding 128 in the first two channels, and at
  the unit normal \<open>(-12/13, 0, 5/13)\<close>, where no channel is a tie.
\<close>

theorem encode_not_rounded:
  "encode (0, 0, 1) 255 = (127, 127, 255, 255) \<and>
   encode_rounded (0, 0, 1) 255 = (128, 128, 255, 255) \<and>
   encode (- 12 / 13, 0, 5 / 13) 255 = (9, 127, 176, 255) \<and>
   encode_rounded (- 12 / 13, 0, 5 / 13) 255 = (10, 128, 177, 255)"
  by (simp add: encode_def encode_channel_floor encode_rounded_def round_def)

text \<open>
  Claim C9. For every value of the scaled gradient \<open>(gx, gy)\<close>, hence for every height
  field, pixel and strength, \<^verbatim>\<open>math.sqrt\<close> returns a length that is at least 1, so none
  of the three divisions by it raises; and \<^verbatim>\<open>sobel_normal_map\<close> never ends in a
  division by zero, whatever the image.
\<close>

theorem normal_length_never_zero:
  "(\<exists>len. normal_length gx gy = Inr len \<and> 1 \<le> len \<and> len \<noteq> 0 \<and>
      normal_vector gx gy = Inr (- gx / len, - gy / len, 1 / len)) \<and>
   normal_vector gx gy \<noteq> Inl ZeroDivisionError \<and>
   sobel_normal_map img strength source \<noteq> Inl ZeroDivisionError"
proof -
  have "sqrt (gx * gx + gy * gy + 1) \<noteq> 0"
    using normal_length_ok(2) [of gx gy] by linarith
  then have "\<exists>len. normal_length gx gy = Inr len \<and> 1 \<le> len \<and> len \<noteq> 0 \<and>
      normal_vector gx gy = Inr (- gx / len, - gy / len, 1 / len)"
    using normal_length_ok [of gx gy]
    by (intro exI [of _ "sqrt (gx * gx + gy * gy + 1)"])
       (simp add: normal_vector_ok unit_normal_def)
  then show ?thesis
    by (simp add: normal_vector_ok sobel_normal_map_ok)
qed

text \<open>
  Claim C6. For every image, height source, strength and pixel \<open>(x, y)\<close> of the image,
  \<^verbatim>\<open>gx\<close> and \<^verbatim>\<open>gy\<close> as first assigned are the kernels
  \<open>[-1,0,1; -2,0,2; -1,0,1]\<close> and \<open>[-1,-2,-1; 0,0,0; 1,2,1]\<close> applied to the height field,
  and the gradient is both scaled by the strength; every neighbour read \<^verbatim>\<open>h(dx, dy)\<close>
  returns the height of the pixel at the nearest valid coordinates (no wrap-around, no
  constant padding), and at pixel \<open>(0, 0)\<close> the read \<^verbatim>\<open>h(-1, -1)\<close> returns the height
  of pixel \<open>(0, 0)\<close>. Lemma \<open>nearest_valid_nearest\<close> says that \<open>nearest_valid\<close> is the
  nearest.
\<close>

theorem sobel_clamped_kernels:
  assumes "x < width img" "y < height img"
  shows "\<exists>hm. height_map img source = Inr hm \<and>
           sobel_gx hm (width img) (height img) x y =
             Inr (apply_kernel Kx (height_field img source) (width img) (height img) x y) \<and>
           sobel_gy hm (width img) (height img) x y =
             Inr (apply_kernel Ky (height_field img source) (width img) (height img) x y) \<and>
           gradient hm (width img) (height img) strength x y =
             Inr (apply_kernel Kx (height_field img source) (width img) (height img) x y * strength,
                  apply_kernel Ky (height_field img source) (width img) (height img) x y * strength) \<and>
           (\<forall>dx dy. h_read hm (width img) (height img) x y dx dy =
              Inr (height_field img source (nearest_valid (width img) (int x + dx))
                     (nearest_valid (height img) (int y + dy)))) \<and>
           h_read hm (width img) (height img) 0 0 (- 1) (- 1) = Inr (height_field img source 0 0)"
proof -
  have w: "0 < width img" and h: "0 < height img" using assms by simp_all
  have "h_read (map (\<lambda>y. map (\<lambda>x. height_field img source x y) [0..<width img])
                   [0..<height img]) (width img) (height img) 0 0 (- 1) (- 1) =
          Inr (height_field img source 0 0)"
    using h_read_ok [OF w h, of source "- 1" "- 1"] by (simp add: nearest_valid_def)
  then show ?thesis
    using sobel_ok [OF assms, of source] gradient_ok [OF assms, of source strength]
      h_read_ok [OF assms, of source]
    by (simp add: height_map_ok gradient_value_def)
qed

theorem sobel_clamped_kernels_witness:
  "(0::nat) < width ramp_4x4 \<and> (0::nat) < height ramp_4x4 \<and>
   (\<exists>hm. height_map ramp_4x4 ''alpha'' = Inr hm \<and>
      h_read hm 4 4 0 0 (- 1) (- 1) = Inr 0 \<and>
      sobel_gx hm 4 4 0 0 = Inr (4 / 255) \<and>
      sobel_gy hm 4 4 0 0 = Inr (16 / 255) \<and>
      gradient hm 4 4 2 0 0 = Inr (8 / 255, 32 / 255))"
proof -
  have d: "(0::nat) < width ramp_4x4" "(0::nat) < height ramp_4x4"
    by (simp_all add: ramp_4x4_def)
  have H: "height_field ramp_4x4 ''alpha'' a b = (real a + 4 * real b) / 255" for a b
    by (simp add: height_field_def pixel_height_def ramp_4x4_def)
  have k: "apply_kernel Kx (height_field ramp_4x4 ''alpha'') 4 4 0 0 = 4 / 255"
    "apply_kernel Ky (height_field ramp_4x4 ''alpha'') 4 4 0 0 = 16 / 255"
    by (simp_all add: apply_kernel_Kx apply_kernel_Ky H nearest_valid_def)
  have wh: "width ramp_4x4 = 4" "height ramp_4x4 = 4" by (simp_all add: ramp_4x4_def)
  from sobel_clamped_kernels [OF d, of "''alpha''" 2] d show ?thesis
    unfolding wh k H by simp blast
qed




end
